theory Spec2Isabelle
  imports Main
begin

section \<open>Credential store: utils/tokenManager.js\<close>

text \<open>
  The token set is the object the OAuth exchange returns. The fields below are the ones
  this repository reads: \<open>expiry_date\<close> (tokenManager.js, authRoutes.js),
  \<open>refresh_token\<close> (authRoutes.js), \<open>email\<close> (delegatedEmailRoutes.js) and the
  access token itself. A field that is \<open>undefined\<close> in JavaScript is \<open>None\<close>.
  Timestamps are milliseconds since the epoch, as \<open>Date.now()\<close> gives them.
\<close>

record tokens =
  access_token :: "string option"
  refresh_token :: "string option"
  expiry_date :: "int option"
  email :: "string option"

text \<open>What \<open>saveTokens\<close> stores: \<open>{...tokens, createdAt: new Date().toISOString()}\<close>.\<close>

record stored = tokens +
  createdAt :: string

definition with_createdAt :: "tokens \<Rightarrow> string \<Rightarrow> stored" where
  "with_createdAt t stamp =
     \<lparr>access_token = access_token t, refresh_token = refresh_token t,
      expiry_date = expiry_date t, email = email t, createdAt = stamp\<rparr>"

text \<open>
  The file \<open>tokens.json\<close> as the two calls \<open>fs.readFile\<close> and \<open>JSON.parse\<close> see it:
  it does not exist, it exists and cannot be read, it holds text that is not JSON, or it
  holds a JSON object from user ids to stored records. Writing
  \<open>JSON.stringify(tokenData)\<close> and parsing it again gives the own properties of
  \<open>tokenData\<close> back (a token set holds strings and integers), so the document is kept
  as the map of own properties it denotes. A file that holds JSON of another kind
  (\<open>null\<close>, a number, a string or an array) is not modelled.
\<close>

datatype tokens_file =
    Missing
  | Unreadable
  | Malformed
  | Document "string \<Rightarrow> stored option"

text \<open>
  \<open>write_error\<close> is the rejection of the next \<open>fs.writeFile\<close>, if it will fail. What
  a failed write leaves in the file is not specified by the runtime; the model keeps the
  old content, and no property below rests on it.
\<close>

record filesystem =
  tokens_json :: tokens_file
  write_error :: "string option"

text \<open>\<open>JSON.parse(await fs.readFile(this.tokensFile, 'utf8'))\<close>, with the exception as \<open>Inl\<close>.\<close>

fun read_tokens_json :: "tokens_file \<Rightarrow> string + (string \<Rightarrow> stored option)" where
  "read_tokens_json Missing = Inl ''ENOENT: no such file or directory''"
| "read_tokens_json Unreadable = Inl ''EACCES: permission denied''"
| "read_tokens_json Malformed = Inl ''Unexpected token in JSON''"
| "read_tokens_json (Document d) = Inr d"

text \<open>
  The parsed document is a plain object, so besides its own properties it has the ones
  of \<open>Object.prototype\<close>. Reading \<open>tokenData[userId]\<close> for one of these names, when
  the document has no property of that name, gives the inherited member (a function,
  or the prototype itself for \<open>__proto__\<close>), which is truthy. Writing
  \<open>tokenData['__proto__'] = v\<close>, when the document has no such property, calls the
  inherited setter: it replaces the prototype and adds no property, and
  \<open>JSON.stringify\<close> writes own properties only. Writing any other name adds or
  replaces an own property.
\<close>

definition inherited :: "string \<Rightarrow> bool" where
  "inherited key =
     (key \<in> set [''__proto__'', ''constructor'', ''hasOwnProperty'', ''isPrototypeOf'',
                  ''propertyIsEnumerable'', ''toLocaleString'', ''toString'', ''valueOf'',
                  ''__defineGetter__'', ''__defineSetter__'', ''__lookupGetter__'',
                  ''__lookupSetter__''])"

definition set_property ::
    "(string \<Rightarrow> stored option) \<Rightarrow> string \<Rightarrow> stored \<Rightarrow> (string \<Rightarrow> stored option)" where
  "set_property tokenData key v =
     (if key = ''__proto__'' \<and> tokenData key = None then tokenData
      else tokenData(key \<mapsto> v))"

text \<open>
  What \<open>loadTokens\<close> returns: \<open>null\<close>, a stored record, or a member of
  \<open>Object.prototype\<close> (named by its key).
\<close>

datatype loaded =
    NotFound
  | Found stored
  | Inherited string

definition get_property :: "(string \<Rightarrow> stored option) \<Rightarrow> string \<Rightarrow> loaded" where
  "get_property tokenData key =
     (case tokenData key of
        Some r \<Rightarrow> Found r
      | None \<Rightarrow> if inherited key then Inherited key else NotFound)"

text \<open>
  \<open>saveTokens(userId, tokens)\<close>. The inner \<open>try\<close> leaves \<open>tokenData = {}\<close> on every
  exception of the read or the parse; the outer one wraps an exception of the write.
  The first argument is \<open>new Date().toISOString()\<close> at the time of the call.
\<close>

definition saveTokens ::
    "string \<Rightarrow> string \<Rightarrow> tokens \<Rightarrow> filesystem \<Rightarrow> (string + bool) \<times> filesystem" where
  "saveTokens stamp userId t fs =
     (let tokenData = (case read_tokens_json (tokens_json fs) of
                         Inl _ \<Rightarrow> Map.empty
                       | Inr d \<Rightarrow> d);
          tokenData' = set_property tokenData userId (with_createdAt t stamp)
      in case write_error fs of
           Some msg \<Rightarrow> (Inl (''Failed to save tokens: '' @ msg), fs)
         | None \<Rightarrow> (Inr True, fs\<lparr>tokens_json := Document tokenData'\<rparr>))"

text \<open>
  \<open>loadTokens(userId)\<close>: \<open>tokenData[userId] || null\<close>, and \<open>null\<close> from the \<open>catch\<close>;
  it has no \<open>throw\<close>.
\<close>

definition loadTokens :: "string \<Rightarrow> filesystem \<Rightarrow> string + loaded" where
  "loadTokens userId fs =
     (case read_tokens_json (tokens_json fs) of
        Inl _ \<Rightarrow> Inr NotFound
      | Inr tokenData \<Rightarrow> Inr (get_property tokenData userId))"

text \<open>
  \<open>isTokenExpired(tokens)\<close>, with \<open>Date.now()\<close> as the first argument.
  \<open>!tokens.expiry_date\<close> holds for \<open>undefined\<close> and for the number 0.
\<close>

definition isTokenExpired :: "int \<Rightarrow> 'a tokens_scheme \<Rightarrow> bool" where
  "isTokenExpired now t =
     (case expiry_date t of
        None \<Rightarrow> True
      | Some e \<Rightarrow> if e = 0 then True else now > e)"

section \<open>HTTP responses\<close>

text \<open>
  The values \<open>res.json\<close> serialises. A property whose value is \<open>undefined\<close> is left
  out of the serialised object, so it is left out of the list.
\<close>

datatype json =
    JNull
  | JBool bool
  | JNum int
  | JStr string
  | JArr "json list"
  | JObj "(string \<times> json) list"

text \<open>\<open>res.status(n).json(v)\<close> (\<open>res.json(v)\<close> is status 200) and \<open>res.redirect(path)\<close>.\<close>

datatype response =
    Json nat json
  | Redirect string

definition opt_field :: "string \<Rightarrow> string option \<Rightarrow> (string \<times> json) list" where
  "opt_field k v = (case v of None \<Rightarrow> [] | Some s \<Rightarrow> [(k, JStr s)])"

text \<open>
  \<open>!v\<close> for a request field or an environment variable that is a string when it is
  there: true when it is \<open>undefined\<close> or the empty string.
\<close>

definition falsy :: "string option \<Rightarrow> bool" where
  "falsy v = (case v of None \<Rightarrow> True | Some s \<Rightarrow> s = [])"

section \<open>Liveness endpoint of the session server\<close>

type_synonym environment = "string \<Rightarrow> string option"

definition required :: "string list" where
  "required = [''CLIENT_ID'', ''CLIENT_SECRET'', ''SESSION_SECRET'']"

text \<open>
  \<open>validateEnvironment()\<close>: the list \<open>missing\<close>; the process exits with code 1 before
  any route is registered when the list is not empty.
\<close>

definition missing_environment :: "environment \<Rightarrow> string list" where
  "missing_environment env = filter (\<lambda>key. falsy (env key)) required"

definition validateEnvironment :: "environment \<Rightarrow> nat + unit" where
  "validateEnvironment env =
     (if length (missing_environment env) > 0 then Inl 1 else Inr ())"

text \<open>\<open>app.get('/health')\<close>; the first argument is \<open>new Date().toISOString()\<close>.\<close>

definition health :: "string \<Rightarrow> environment \<Rightarrow> response" where
  "health stamp env =
     Json 200 (JObj
       [(''status'', JStr ''OK''),
        (''timestamp'', JStr stamp),
        (''environment'', JObj
           [(''client_id_set'', JBool (\<not> falsy (env ''CLIENT_ID''))),
            (''client_secret_set'', JBool (\<not> falsy (env ''CLIENT_SECRET''))),
            (''session_secret_set'', JBool (\<not> falsy (env ''SESSION_SECRET'')))])])"

text \<open>A response body with one top-level field taken out, to compare the rest.\<close>

fun without_field :: "string \<Rightarrow> response \<Rightarrow> response" where
  "without_field k (Json n (JObj kvs)) = Json n (JObj (filter (\<lambda>kv. fst kv \<noteq> k) kvs))"
| "without_field k r = r"

section \<open>Text helpers of the JavaScript runtime\<close>

text \<open>
  A string is kept as the bytes \<open>Buffer.from(s)\<close> gives: its UTF-8 encoding. What the
  runtime does by UTF-16 code unit is written for that encoding. The white space of
  \<open>trim()\<close> and of the class \<open>\s\<close> is tab, line feed, vertical tab, form feed,
  carriage return and space, and outside ASCII the characters U+00A0, U+1680, U+2000 to
  U+200A, U+2028, U+2029, U+202F, U+205F, U+3000 and U+FEFF, here as their encodings.
\<close>

definition ascii_space :: "char \<Rightarrow> bool" where
  "ascii_space c = (c \<in> set [CHR 0x09, CHR 0x0A, CHR 0x0B, CHR 0x0C, CHR 0x0D, CHR '' ''])"

definition wide_spaces :: "string list" where
  "wide_spaces =
     [[CHR 0xC2, CHR 0xA0],
      [CHR 0xE1, CHR 0x9A, CHR 0x80],
      [CHR 0xE2, CHR 0x80, CHR 0x80], [CHR 0xE2, CHR 0x80, CHR 0x81],
      [CHR 0xE2, CHR 0x80, CHR 0x82], [CHR 0xE2, CHR 0x80, CHR 0x83],
      [CHR 0xE2, CHR 0x80, CHR 0x84], [CHR 0xE2, CHR 0x80, CHR 0x85],
      [CHR 0xE2, CHR 0x80, CHR 0x86], [CHR 0xE2, CHR 0x80, CHR 0x87],
      [CHR 0xE2, CHR 0x80, CHR 0x88], [CHR 0xE2, CHR 0x80, CHR 0x89],
      [CHR 0xE2, CHR 0x80, CHR 0x8A],
      [CHR 0xE2, CHR 0x80, CHR 0xA8], [CHR 0xE2, CHR 0x80, CHR 0xA9],
      [CHR 0xE2, CHR 0x80, CHR 0xAF],
      [CHR 0xE2, CHR 0x81, CHR 0x9F],
      [CHR 0xE3, CHR 0x80, CHR 0x80],
      [CHR 0xEF, CHR 0xBB, CHR 0xBF]]"

definition wide_space :: "bool \<Rightarrow> string \<Rightarrow> bool" where
  "wide_space backwards w = ((if backwards then rev w else w) \<in> set wide_spaces)"

fun skip_spaces :: "bool \<Rightarrow> string \<Rightarrow> string" where
  "skip_spaces backwards (c1 # c2 # c3 # s) =
     (if ascii_space c1 then skip_spaces backwards (c2 # c3 # s)
      else if wide_space backwards [c1, c2] then skip_spaces backwards (c3 # s)
      else if wide_space backwards [c1, c2, c3] then skip_spaces backwards s
      else c1 # c2 # c3 # s)"
| "skip_spaces backwards [c1, c2] =
     (if ascii_space c1 then skip_spaces backwards [c2]
      else if wide_space backwards [c1, c2] then []
      else [c1, c2])"
| "skip_spaces backwards [c1] = (if ascii_space c1 then [] else [c1])"
| "skip_spaces backwards [] = []"

text \<open>\<open>s.trim()\<close>: white space goes from the front, then from the end.\<close>

definition trim :: "string \<Rightarrow> string" where
  "trim s = rev (skip_spaces True (rev (skip_spaces False s)))"

text \<open>
  \<open>s.length\<close> counts UTF-16 code units: one for each encoded character, and one more
  for a character of four bytes (a surrogate pair).
\<close>

definition js_length :: "string \<Rightarrow> nat" where
  "js_length s =
     length (filter (\<lambda>c. \<not> ((0x80::nat) \<le> of_char c \<and> of_char c < (0xC0::nat))) s)
     + length (filter (\<lambda>c. (0xF0::nat) \<le> of_char c) s)"

text \<open>\<open>s.includes(w)\<close>, and the test for a character of the ASCII range.\<close>

fun occurs :: "string \<Rightarrow> string \<Rightarrow> bool" where
  "occurs w [] = (w = [])"
| "occurs w (c # cs) = (take (length w) (c # cs) = w \<or> occurs w cs)"


text \<open>\<open>lines.join(sep)\<close>\<close>

fun join :: "string \<Rightarrow> string list \<Rightarrow> string" where
  "join sep [] = []"
| "join sep [x] = x"
| "join sep (x # y # ys) = x @ sep @ join sep (y # ys)"


definition LF :: string where
  "LF = [CHR 0x0A]"

section \<open>Base64, as \<open>Buffer.toString('base64')\<close> writes it\<close>

definition b64_alphabet :: string where
  "b64_alphabet =
     ''ABCDEFGHIJKLMNOPQRSTUVWXYZabcdefghijklmnopqrstuvwxyz0123456789+/''"

definition b64_digit :: "nat \<Rightarrow> char" where
  "b64_digit i = b64_alphabet ! i"


fun b64_bytes :: "nat list \<Rightarrow> string" where
  "b64_bytes [] = []"
| "b64_bytes [a] =
     [b64_digit (a div 4), b64_digit ((a mod 4) * 16), CHR ''='', CHR ''='']"
| "b64_bytes [a, b] =
     [b64_digit (a div 4), b64_digit ((a mod 4) * 16 + b div 16),
      b64_digit ((b mod 16) * 4), CHR ''='']"
| "b64_bytes (a # b # c # rest) =
     [b64_digit (a div 4), b64_digit ((a mod 4) * 16 + b div 16),
      b64_digit ((b mod 16) * 4 + c div 64), b64_digit (c mod 64)] @ b64_bytes rest"

definition base64 :: "string \<Rightarrow> string" where
  "base64 s = b64_bytes (map of_char s)"



text \<open>\<open>.replace(/\+/g, '-').replace(/\//g, '_')\<close> and its inverse.\<close>

definition url_safe :: "string \<Rightarrow> string" where
  "url_safe s =
     map (\<lambda>c. if c = CHR ''/'' then CHR ''_'' else c)
       (map (\<lambda>c. if c = CHR ''+'' then CHR ''-'' else c) s)"


text \<open>\<open>.replace(/=+$/, '')\<close>, and the padding put back to a multiple of four.\<close>

definition strip_padding :: "string \<Rightarrow> string" where
  "strip_padding s = rev (dropWhile (\<lambda>c. c = CHR ''='') (rev s))"


section \<open>Provider client of the session server: class GmailService\<close>

text \<open>
  The remote mail API as the service uses it. Each operation answers with the data of
  the response or rejects with a message (\<open>Inl\<close>). \<open>messages_list\<close> takes
  \<open>maxResults\<close> and \<open>labelIds\<close> and gives \<open>response.data.messages\<close>, which may be
  \<open>undefined\<close>; \<open>messages_get\<close> takes the id and the \<open>metadataHeaders\<close>;
  \<open>messages_send\<close> takes \<open>userId\<close> and \<open>raw\<close> and gives the assigned id.
\<close>

record message_ref =
  m_id :: string
  m_threadId :: string

record message_data =
  headers :: "(string \<times> string) list"
  snippet :: "string option"
  internalDate :: "string option"
  labelIds :: "string list option"

record gmail_api =
  messages_list :: "int \<Rightarrow> string list option \<Rightarrow> string + message_ref list option"
  messages_get :: "string \<Rightarrow> string list \<Rightarrow> string + message_data"
  messages_send :: "string \<Rightarrow> string \<Rightarrow> string + string"

text \<open>\<open>headers.find(h => h.name === name)?.value || dflt\<close>.\<close>

definition header_value :: "(string \<times> string) list \<Rightarrow> string \<Rightarrow> string \<Rightarrow> string" where
  "header_value hs name dflt =
     (case find (\<lambda>h. fst h = name) hs of
        None \<Rightarrow> dflt
      | Some h \<Rightarrow> if snd h = [] then dflt else snd h)"

text \<open>\<open>.replace(/<[^>]*>/g, '')\<close>: every \<open><\<close> with a later \<open>>\<close> goes, up to the first such \<open>>\<close>.\<close>

function strip_tags :: "string \<Rightarrow> string" where
  "strip_tags [] = []"
| "strip_tags (c # cs) =
     (if c = CHR ''<'' \<and> CHR ''>'' \<in> set cs
      then strip_tags (tl (dropWhile (\<lambda>x. x \<noteq> CHR ''>'') cs))
      else c # strip_tags cs)"
  by pat_completeness auto
termination
  by (relation "measure length")
     (auto simp: less_Suc_eq_le intro: le_trans [OF diff_le_self length_dropWhile_le])

text \<open>
  One entry of \<open>emailDetails\<close> in the server with the label filter. \<open>localeDate\<close> is
  \<open>d => new Date(d).toLocaleString()\<close>, which depends on the host's locale.
\<close>

definition email_summary :: "(string \<Rightarrow> string) \<Rightarrow> message_ref \<Rightarrow> message_data \<Rightarrow> json" where
  "email_summary localeDate message detail =
     (let hs = headers detail;
          from = header_value hs ''From'' ''Unknown Sender'';
          to = header_value hs ''To'' [];
          subject = header_value hs ''Subject'' ''No Subject'';
          date = header_value hs ''Date'' [];
          fromClean = trim (strip_tags from)
      in JObj ([(''id'', JStr (m_id message)),
                (''threadId'', JStr (m_threadId message)),
                (''subject'', JStr subject),
                (''from'', JStr fromClean),
                (''to'', JStr to),
                (''date'', JStr (localeDate date)),
                (''snippet'', JStr (if falsy (snippet detail) then ''No preview available''
                                    else the (snippet detail)))]
               @ opt_field ''internalDate'' (internalDate detail)
               @ [(''labelIds'', JArr (map JStr (case labelIds detail of None \<Rightarrow> [] | Some ls \<Rightarrow> ls)))]))"

definition error_entry :: "message_ref \<Rightarrow> string \<Rightarrow> json" where
  "error_entry message msg = JObj [(''id'', JStr (m_id message)), (''error'', JStr msg)]"

text \<open>
  The loop of \<open>listEmails\<close> in that server: each iteration has its own \<open>try\<close>, and its
  \<open>catch\<close> pushes the error entry. \<open>Inl\<close> of \<open>messages_get\<close> is whatever the body of
  that \<open>try\<close> throws.
\<close>

fun fetch_details ::
    "(string \<Rightarrow> string) \<Rightarrow> gmail_api \<Rightarrow> message_ref list \<Rightarrow> json list \<Rightarrow> json list" where
  "fetch_details localeDate api [] emailDetails = emailDetails"
| "fetch_details localeDate api (message # rest) emailDetails =
     fetch_details localeDate api rest
       (emailDetails @
        [case messages_get api (m_id message)
                [''From'', ''To'', ''Subject'', ''Date'', ''Message-ID''] of
           Inl emailError \<Rightarrow> error_entry message emailError
         | Inr detail \<Rightarrow> email_summary localeDate message detail])"

definition listEmails ::
    "(string \<Rightarrow> string) \<Rightarrow> gmail_api \<Rightarrow> int \<Rightarrow> string list \<Rightarrow> string + json list" where
  "listEmails localeDate api maxResults labelFilter =
     (case messages_list api maxResults (Some labelFilter) of
        Inl msg \<Rightarrow> Inl (''Failed to list emails: '' @ msg)
      | Inr found \<Rightarrow>
          Inr (fetch_details localeDate api (case found of None \<Rightarrow> [] | Some ms \<Rightarrow> ms) []))"

text \<open>
  The same method in the older copy of the server: the loop has no \<open>try\<close> of its own,
  so a rejected \<open>messages.get\<close> leaves the loop and reaches the \<open>catch\<close> of the method.
\<close>

definition basic_summary :: "message_ref \<Rightarrow> message_data \<Rightarrow> json" where
  "basic_summary message detail =
     (let hs = headers detail;
          subject = header_value hs ''Subject'' ''No Subject'';
          from = header_value hs ''From'' ''Unknown Sender'';
          date = header_value hs ''Date'' []
      in JObj ([(''id'', JStr (m_id message)),
                (''threadId'', JStr (m_threadId message)),
                (''subject'', JStr subject),
                (''from'', JStr from),
                (''date'', JStr date)]
               @ opt_field ''snippet'' (snippet detail)))"

fun fetch_details_basic ::
    "gmail_api \<Rightarrow> message_ref list \<Rightarrow> json list \<Rightarrow> string + json list" where
  "fetch_details_basic api [] emailDetails = Inr emailDetails"
| "fetch_details_basic api (message # rest) emailDetails =
     (case messages_get api (m_id message) [''From'', ''To'', ''Subject'', ''Date''] of
        Inl msg \<Rightarrow> Inl msg
      | Inr detail \<Rightarrow>
          fetch_details_basic api rest (emailDetails @ [basic_summary message detail]))"

definition listEmails_basic :: "gmail_api \<Rightarrow> int \<Rightarrow> string + json list" where
  "listEmails_basic api maxResults =
     (case (case messages_list api maxResults None of
              Inl msg \<Rightarrow> Inl msg
            | Inr found \<Rightarrow>
                fetch_details_basic api (case found of None \<Rightarrow> [] | Some ms \<Rightarrow> ms) []) of
        Inl msg \<Rightarrow> Inl (''Failed to list emails: '' @ msg)
      | Inr emailDetails \<Rightarrow> Inr emailDetails)"

section \<open>Sending from the session server\<close>

text \<open>The remote calls a handler makes, in order: \<open>users.messages.send\<close> and the reads.\<close>

datatype remote_call =
    MessagesSend string string
  | MessagesList string
  | MessagesGet string string
  | ThreadsList string








section \<open>Delegated access: routes/delegatedEmailRoutes.js and services/emailService.js\<close>

subsection \<open>The pattern of \<open>validateEmailAccess\<close>\<close>

text \<open>
  Regular expressions with character classes, matched by derivatives; \<open>regex_test\<close> is
  \<open>test\<close> for a pattern anchored at both ends.
\<close>

datatype re =
    RNone
  | REps
  | RClass "char \<Rightarrow> bool"
  | RAlt re re
  | RSeq re re
  | RStar re

fun nullable :: "re \<Rightarrow> bool" where
  "nullable RNone = False"
| "nullable REps = True"
| "nullable (RClass p) = False"
| "nullable (RAlt a b) = (nullable a \<or> nullable b)"
| "nullable (RSeq a b) = (nullable a \<and> nullable b)"
| "nullable (RStar a) = True"

fun deriv :: "char \<Rightarrow> re \<Rightarrow> re" where
  "deriv c RNone = RNone"
| "deriv c REps = RNone"
| "deriv c (RClass p) = (if p c then REps else RNone)"
| "deriv c (RAlt a b) = RAlt (deriv c a) (deriv c b)"
| "deriv c (RSeq a b) =
     (if nullable a then RAlt (RSeq (deriv c a) b) (deriv c b) else RSeq (deriv c a) b)"
| "deriv c (RStar a) = RSeq (deriv c a) (RStar a)"

definition regex_test :: "re \<Rightarrow> string \<Rightarrow> bool" where
  "regex_test r s = nullable (foldl (\<lambda>r c. deriv c r) r s)"

definition one_or_more :: "re \<Rightarrow> re" where
  "one_or_more a = RSeq a (RStar a)"

text \<open>\<open>/^[^\s@]+@[^\s@]+\.[^\s@]+$/\<close>\<close>

definition emailRegex :: re where
  "emailRegex =
     (let word = one_or_more (RClass (\<lambda>c. \<not> ascii_space c \<and> c \<noteq> CHR ''@''))
      in RSeq word (RSeq (RClass (\<lambda>c. c = CHR ''@''))
           (RSeq word (RSeq (RClass (\<lambda>c. c = CHR ''.'')) word))))"

text \<open>
  \<open>emailRegex.test(targetEmail)\<close>. The pattern above is matched byte by byte, which
  leaves the white space outside ASCII to a second test: no encoding of such a
  character occurs in the string.
\<close>

definition emailRegex_test :: "string \<Rightarrow> bool" where
  "emailRegex_test s =
     (regex_test emailRegex s \<and> \<not> list_ex (\<lambda>w. occurs w s) wide_spaces)"

subsection \<open>The service object and the configuration object\<close>

text \<open>
  \<open>gmail_ready\<close>: \<open>emailService.gmail\<close> is not \<open>null\<close> (it is \<open>null\<close> after the
  constructor). \<open>oauth_ready\<close>: \<open>gmailConfig.isInitialized\<close>. \<open>files\<close> holds
  \<open>tokens.json\<close>; \<open>remote_calls\<close> is the trace of calls to the remote API.
\<close>

record server_state =
  gmail_ready :: bool
  oauth_ready :: bool
  files :: filesystem
  remote_calls :: "remote_call list"

text \<open>
  The remote API as the delegated service uses it: every answer is \<open>response.data\<close>
  passed on as it is. The second argument of the two listings is the \<open>maxResults\<close> of
  the query string, which the route hands to \<open>parseInt\<close> (10 when it is absent).
\<close>

record delegated_api =
  d_messages_list :: "string \<Rightarrow> string option \<Rightarrow> string option \<Rightarrow> string + json"
  d_messages_get :: "string \<Rightarrow> string \<Rightarrow> string + json"
  d_threads_list :: "string \<Rightarrow> string option \<Rightarrow> string + json"
  d_messages_send :: "string \<Rightarrow> string \<Rightarrow> string + string option"

definition getGmailClient :: "server_state \<Rightarrow> string + unit" where
  "getGmailClient st =
     (if \<not> oauth_ready st
      then Inl ''OAuth2 client not initialized. Call initializeOAuth2() first.''
      else Inr ())"

text \<open>\<open>initializeForUser(tokens)\<close>: the only method that installs the user's tokens.\<close>

definition initializeForUser :: "stored \<Rightarrow> server_state \<Rightarrow> string + server_state" where
  "initializeForUser t st =
     (if \<not> oauth_ready st
      then Inl ''OAuth2 client not initialized. Call initializeOAuth2() first.''
      else case getGmailClient st of
             Inl msg \<Rightarrow> Inl msg
           | Inr _ \<Rightarrow> Inr (st\<lparr>gmail_ready := True\<rparr>))"

definition ensureGmailClient :: "server_state \<Rightarrow> string + server_state" where
  "ensureGmailClient st =
     (if \<not> gmail_ready st
      then (case getGmailClient st of
              Inl msg \<Rightarrow> Inl msg
            | Inr _ \<Rightarrow> Inr (st\<lparr>gmail_ready := True\<rparr>))
      else Inr st)"

definition getDelegatedEmails ::
    "delegated_api \<Rightarrow> string \<Rightarrow> string option \<Rightarrow> string option \<Rightarrow> server_state
     \<Rightarrow> (string + json) \<times> server_state" where
  "getDelegatedEmails api targetEmail maxResults pageToken st =
     (if \<not> gmail_ready st
      then (Inl ''Gmail client not initialized. Call initializeForUser() first.'', st)
      else (case d_messages_list api targetEmail maxResults
                   (if falsy pageToken then None else pageToken) of
              Inl msg \<Rightarrow> Inl (''Failed to fetch emails from '' @ targetEmail @ '': '' @ msg)
            | Inr data \<Rightarrow> Inr data,
            st\<lparr>remote_calls := remote_calls st @ [MessagesList targetEmail]\<rparr>))"

definition getDelegatedEmail ::
    "delegated_api \<Rightarrow> string \<Rightarrow> string \<Rightarrow> server_state \<Rightarrow> (string + json) \<times> server_state" where
  "getDelegatedEmail api targetEmail messageId st =
     (if \<not> gmail_ready st
      then (Inl ''Gmail client not initialized.'', st)
      else (case d_messages_get api targetEmail messageId of
              Inl msg \<Rightarrow> Inl (''Failed to fetch email from '' @ targetEmail @ '': '' @ msg)
            | Inr data \<Rightarrow> Inr data,
            st\<lparr>remote_calls := remote_calls st @ [MessagesGet targetEmail messageId]\<rparr>))"

definition getDelegatedThreads ::
    "delegated_api \<Rightarrow> string \<Rightarrow> string option \<Rightarrow> server_state
     \<Rightarrow> (string + json) \<times> server_state" where
  "getDelegatedThreads api targetEmail maxResults st =
     (if \<not> gmail_ready st
      then (Inl ''Gmail client not initialized.'', st)
      else (case d_threads_list api targetEmail maxResults of
              Inl msg \<Rightarrow> Inl (''Failed to fetch threads from '' @ targetEmail @ '': '' @ msg)
            | Inr data \<Rightarrow> Inr data,
            st\<lparr>remote_calls := remote_calls st @ [ThreadsList targetEmail]\<rparr>))"

text \<open>
  \<open>from.match(/<(.+)>/)?.[1]\<close>: at the first \<open><\<close> where it can, the group runs to the
  last \<open>>\<close> of the line, and holds one character at least. A line ends at a line
  feed, a carriage return, U+2028 or U+2029.
\<close>

fun first_line :: "string \<Rightarrow> string" where
  "first_line [] = []"
| "first_line (c # cs) =
     (if c = CHR 0x0A \<or> c = CHR 0x0D
         \<or> (c = CHR 0xE2 \<and> take 2 cs \<in> set [[CHR 0x80, CHR 0xA8], [CHR 0x80, CHR 0xA9]])
      then []
      else c # first_line cs)"

fun match_angle :: "string \<Rightarrow> string option" where
  "match_angle [] = None"
| "match_angle (c # cs) =
     (if c = CHR ''<''
      then (let run = first_line cs;
                closing = filter (\<lambda>k. run ! k = CHR ''>'') [1..<length run]
            in if closing = [] then match_angle cs else Some (take (last closing) run))
      else match_angle cs)"

text \<open>\<open>encodedMessage\<close> of \<open>sendEmailAsDelegate\<close>.\<close>

definition delegate_text :: "string \<Rightarrow> string \<Rightarrow> string \<Rightarrow> string \<Rightarrow> string" where
  "delegate_text from to subject body =
     join LF
       [''From: '' @ from,
        ''To: '' @ to,
        ''Content-Type: text/html; charset=utf-8'',
        ''MIME-Version: 1.0'',
        ''Subject: '' @ subject,
        [],
        body]"

definition encodedMessage :: "string \<Rightarrow> string \<Rightarrow> string \<Rightarrow> string \<Rightarrow> string" where
  "encodedMessage from to subject body =
     strip_padding (url_safe (base64 (delegate_text from to subject body)))"

definition sendEmailAsDelegate ::
    "delegated_api \<Rightarrow> string \<Rightarrow> string \<Rightarrow> string \<Rightarrow> string \<Rightarrow> server_state
     \<Rightarrow> (string + string option) \<times> server_state" where
  "sendEmailAsDelegate api to subject body from st =
     (case ensureGmailClient st of
        Inl msg \<Rightarrow> (Inl msg, st)
      | Inr st1 \<Rightarrow>
          (let raw = encodedMessage from to subject body;
               fromEmail = (case match_angle from of Some g \<Rightarrow> g | None \<Rightarrow> from)
           in (case d_messages_send api fromEmail raw of
                 Inl msg \<Rightarrow> Inl (''Failed to send email as delegate: '' @ msg)
               | Inr data \<Rightarrow> Inr data,
               st1\<lparr>remote_calls := remote_calls st1 @ [MessagesSend fromEmail raw]\<rparr>)))"

subsection \<open>Middleware and routes\<close>

text \<open>
  A parameter of the query string as the query parser leaves it on \<open>req.query\<close>: not
  there, a string, or an array or object (a key given several times or with brackets).
\<close>

datatype query_value =
    Absent
  | Text string
  | Structured

record delegated_request =
  dq_userId :: "string option"
  dq_targetEmail :: "string option"
  dq_maxResults :: "string option"
  dq_pageToken :: "string option"
  dq_labelIds :: query_value
  param_messageId :: string
  db_to :: "string option"
  db_subject :: "string option"
  db_body :: "string option"
  db_from :: "string option"

text \<open>A middleware answers the request itself or calls \<open>next()\<close> with what it left on \<open>req\<close>.\<close>

datatype 'a step =
    Respond response
  | Next 'a

text \<open>
  \<open>loadUserTokens\<close>: \<open>req.userTokens = tokens; req.userEmail = tokens.email; next()\<close>.
  It reads the store and touches nothing else. A member of \<open>Object.prototype\<close> has no
  property \<open>email\<close>.
\<close>

definition userEmail :: "loaded \<Rightarrow> string option" where
  "userEmail userTokens = (case userTokens of Found t \<Rightarrow> email t | _ \<Rightarrow> None)"

definition loadUserTokens :: "delegated_request \<Rightarrow> server_state \<Rightarrow> loaded step" where
  "loadUserTokens req st =
     (if falsy (dq_userId req)
      then Respond (Json 400
             (JObj [(''error'', JStr ''User ID required. Use the userId from authentication.'')]))
      else case loadTokens (the (dq_userId req)) (files st) of
             Inl msg \<Rightarrow> Respond (Json 500 (JObj [(''error'', JStr msg)]))
           | Inr NotFound \<Rightarrow>
               Respond (Json 404
                 (JObj [(''error'', JStr ''User not found or not authenticated. Please authenticate first.'')]))
           | Inr userTokens \<Rightarrow> Next userTokens)"

definition validateEmailAccess :: "delegated_request \<Rightarrow> string step" where
  "validateEmailAccess req =
     (if falsy (dq_targetEmail req)
      then Respond (Json 400 (JObj [(''error'', JStr ''targetEmail parameter is required'')]))
      else if \<not> emailRegex_test (the (dq_targetEmail req))
      then Respond (Json 400 (JObj [(''error'', JStr ''Invalid email format'')]))
      else Next (the (dq_targetEmail req)))"

text \<open>
  \<open>labelIds ? labelIds.split(',') : undefined\<close>, an argument of the calls in the inbox
  and threads routes that the service then ignores: an array or object is truthy and has
  no method \<open>split\<close>, so evaluating the argument throws inside the \<open>try\<close> of the route.
\<close>

definition split_labelIds :: "query_value \<Rightarrow> string + unit" where
  "split_labelIds v =
     (case v of
        Structured \<Rightarrow> Inl ''labelIds.split is not a function''
      | _ \<Rightarrow> Inr ())"

definition delegated_ok :: "loaded \<Rightarrow> string \<Rightarrow> json \<Rightarrow> response" where
  "delegated_ok t targetEmail data =
     Json 200 (JObj ([(''success'', JBool True)]
                     @ opt_field ''authenticatedAs'' (userEmail t)
                     @ [(''accessing'', JStr targetEmail), (''data'', data)]))"

definition inbox_route ::
    "delegated_api \<Rightarrow> delegated_request \<Rightarrow> server_state \<Rightarrow> response \<times> server_state" where
  "inbox_route api req st =
     (case loadUserTokens req st of
        Respond r \<Rightarrow> (r, st)
      | Next t \<Rightarrow>
         (case validateEmailAccess req of
            Respond r \<Rightarrow> (r, st)
          | Next targetEmail \<Rightarrow>
             (case (case split_labelIds (dq_labelIds req) of
                      Inl msg \<Rightarrow> (Inl msg, st)
                    | Inr _ \<Rightarrow>
                        getDelegatedEmails api targetEmail (dq_maxResults req)
                          (dq_pageToken req) st) of
                (Inl msg, st') \<Rightarrow>
                  (Json 500 (JObj [(''error'', JStr ''Failed to fetch emails''),
                                   (''details'', JStr msg)]), st')
              | (Inr data, st') \<Rightarrow> (delegated_ok t targetEmail data, st'))))"

definition email_route ::
    "delegated_api \<Rightarrow> delegated_request \<Rightarrow> server_state \<Rightarrow> response \<times> server_state" where
  "email_route api req st =
     (case loadUserTokens req st of
        Respond r \<Rightarrow> (r, st)
      | Next t \<Rightarrow>
         (case validateEmailAccess req of
            Respond r \<Rightarrow> (r, st)
          | Next targetEmail \<Rightarrow>
             (if param_messageId req = [] \<or> js_length (param_messageId req) < 5
              then (Json 400 (JObj [(''error'', JStr ''Valid messageId is required'')]), st)
              else case getDelegatedEmail api targetEmail (param_messageId req) st of
                     (Inl msg, st') \<Rightarrow> (Json 500 (JObj [(''error'', JStr msg)]), st')
                   | (Inr data, st') \<Rightarrow> (delegated_ok t targetEmail data, st'))))"

definition threads_route ::
    "delegated_api \<Rightarrow> delegated_request \<Rightarrow> server_state \<Rightarrow> response \<times> server_state" where
  "threads_route api req st =
     (case loadUserTokens req st of
        Respond r \<Rightarrow> (r, st)
      | Next t \<Rightarrow>
         (case validateEmailAccess req of
            Respond r \<Rightarrow> (r, st)
          | Next targetEmail \<Rightarrow>
             (case (case split_labelIds (dq_labelIds req) of
                      Inl msg \<Rightarrow> (Inl msg, st)
                    | Inr _ \<Rightarrow> getDelegatedThreads api targetEmail (dq_maxResults req) st) of
                (Inl msg, st') \<Rightarrow> (Json 500 (JObj [(''error'', JStr msg)]), st')
              | (Inr data, st') \<Rightarrow> (delegated_ok t targetEmail data, st'))))"

definition delegated_send_route ::
    "delegated_api \<Rightarrow> delegated_request \<Rightarrow> server_state \<Rightarrow> response \<times> server_state" where
  "delegated_send_route api req st =
     (case loadUserTokens req st of
        Respond r \<Rightarrow> (r, st)
      | Next t \<Rightarrow>
         (case validateEmailAccess req of
            Respond r \<Rightarrow> (r, st)
          | Next targetEmail \<Rightarrow>
             (if falsy (db_to req) \<or> falsy (db_subject req) \<or> falsy (db_body req)
                 \<or> falsy (db_from req)
              then (Json 400
                      (JObj [(''error'', JStr ''Missing required fields: to, subject, body, from'')]),
                    st)
              else if the (db_from req) \<noteq> targetEmail
              then (Json 400
                      (JObj [(''error'', JStr ''From email must match the delegated mailbox'')]),
                    st)
              else case sendEmailAsDelegate api (the (db_to req)) (the (db_subject req))
                          (the (db_body req)) (the (db_from req)) st of
                     (Inl msg, st') \<Rightarrow>
                       (Json 500 (JObj [(''error'', JStr ''Failed to send email''),
                                        (''details'', JStr msg)]), st')
                   | (Inr sent, st') \<Rightarrow>
                       (Json 200 (JObj ([(''success'', JBool True),
                                         (''message'', JStr ''Email sent successfully as delegate''),
                                         (''sentAs'', JStr (the (db_from req)))]
                                        @ opt_field ''messageId'' sent)), st'))))"

subsection \<open>Auxiliary functions for the proofs about base64\<close>




section \<open>Concrete inputs of the examples\<close>

abbreviation tokens_a1 :: tokens where
  "tokens_a1 \<equiv>
     \<lparr>access_token = Some ''a1'', refresh_token = None, expiry_date = Some 1000, email = None\<rparr>"

abbreviation tokens_no_expiry :: tokens where
  "tokens_no_expiry \<equiv>
     \<lparr>access_token = Some ''a1'', refresh_token = None, expiry_date = None, email = None\<rparr>"

abbreviation example_api :: gmail_api where
  "example_api \<equiv>
     \<lparr>messages_list = (\<lambda>n ls. Inr (Some [\<lparr>m_id = ''m1'', m_threadId = ''t1''\<rparr>,
                                        \<lparr>m_id = ''m2'', m_threadId = ''t2''\<rparr>,
                                        \<lparr>m_id = ''m3'', m_threadId = ''t3''\<rparr>])),
      messages_get = (\<lambda>i hs. if i = ''m2'' then Inl ''boom''
                      else Inr \<lparr>headers = [(''Subject'', ''hi'')], snippet = Some ''s'',
                               internalDate = None, labelIds = None\<rparr>),
      messages_send = (\<lambda>u raw. Inr ''sent-1'')\<rparr>"

abbreviation example_delegated_api :: delegated_api where
  "example_delegated_api \<equiv>
     \<lparr>d_messages_list = (\<lambda>u n p. Inr (JObj [(''messages'', JArr [])])),
      d_messages_get = (\<lambda>u i. Inr (JObj [(''id'', JStr i)])),
      d_threads_list = (\<lambda>u n. Inr (JObj [(''threads'', JArr [])])),
      d_messages_send = (\<lambda>u raw. Inr (Some ''sent-1''))\<rparr>"

abbreviation fresh_server :: server_state where
  "fresh_server \<equiv>
     \<lparr>gmail_ready = False, oauth_ready = True,
      files = \<lparr>tokens_json = Document [''u1'' \<mapsto>
                  \<lparr>access_token = Some ''a1'', refresh_token = None,
                   expiry_date = Some 1000, email = Some ''owner@x.org'',
                   createdAt = ''2024-01-01T00:00:00.000Z''\<rparr>],
               write_error = None\<rparr>,
      remote_calls = []\<rparr>"

abbreviation delegated_read :: "string \<Rightarrow> delegated_request" where
  "delegated_read messageId \<equiv>
     \<lparr>dq_userId = Some ''u1'', dq_targetEmail = Some ''a@b.co'', dq_maxResults = None,
      dq_pageToken = None, dq_labelIds = Text ''INBOX,UNREAD'', param_messageId = messageId,
      db_to = None, db_subject = None,
      db_body = None, db_from = None\<rparr>"

section \<open>Properties of the credential store\<close>

text \<open>
  C1 (as the code has it). \<open>isTokenExpired\<close> depends on the token set and the current
  time only. It returns true exactly when the expiry timestamp is absent (or is the
  number 0, which \<open>!\<close> treats alike) or the current time is strictly greater than the
  expiry timestamp. So it is true for an expiry in the past and for no expiry, false
  for an expiry strictly in the future, and false, not true, for a token set whose
  expiry equals the current instant.
\<close>

theorem isTokenExpired_strict:
  "(isTokenExpired now t \<longleftrightarrow>
      expiry_date t = None \<or> expiry_date t = Some 0
      \<or> (\<exists>e. expiry_date t = Some e \<and> e < now))
   \<and> (expiry_date t = Some now \<and> now \<noteq> 0 \<longrightarrow> \<not> isTokenExpired now t)"
  by (auto simp: isTokenExpired_def split: option.splits)

theorem isTokenExpired_strict_witness:
  "isTokenExpired 1001 tokens_a1
   \<and> \<not> isTokenExpired 1000 tokens_a1
   \<and> \<not> isTokenExpired 999 tokens_a1
   \<and> isTokenExpired 999 tokens_no_expiry"
  using isTokenExpired_strict [of 1001 "tokens_a1"]
    isTokenExpired_strict [of 1000 "tokens_a1"]
    isTokenExpired_strict [of 999 "tokens_a1"]
    isTokenExpired_strict [of 999 "tokens_no_expiry"]
  by simp

text \<open>
  The claim as the specification words it asks for true when the current time equals
  the expiry timestamp; at \<open>now = expiry_date = 1000\<close> the function is false.
\<close>

theorem isTokenExpired_at_expiry_counterexample:
  "\<not> isTokenExpired 1000 tokens_a1
   \<and> expiry_date tokens_a1 = Some 1000 \<and> (1000::int) \<ge> 1000"
  by (simp add: isTokenExpired_def)

text \<open>
  C2. \<open>saveTokens\<close> over a file whose content is not JSON: the specification asks for
  a failure; the call returns \<open>true\<close> and the file afterwards holds the new record
  alone. The comment in the inner \<open>catch\<close> names the missing file only.
\<close>

theorem saveTokens_over_malformed:
  "saveTokens ''2024-01-01T00:00:00.000Z'' ''u1'' tokens_a1
     \<lparr>tokens_json = Malformed, write_error = None\<rparr>
   = (Inr True,
      \<lparr>tokens_json = Document [''u1'' \<mapsto> with_createdAt tokens_a1 ''2024-01-01T00:00:00.000Z''],
       write_error = None\<rparr>)"
  by (simp add: saveTokens_def set_property_def)

lemma save_then_load_ordinary_id:
  assumes "write_error fs = None" and "u \<noteq> ''__proto__''"
  shows "fst (saveTokens stamp u t fs) = Inr True
     \<and> (\<exists>r. loadTokens u (snd (saveTokens stamp u t fs)) = Inr (Found r)
            \<and> tokens.truncate r = t \<and> createdAt r = stamp
            \<and> isTokenExpired now r = isTokenExpired now t)"
  using assms
  by (simp add: saveTokens_def loadTokens_def set_property_def get_property_def Let_def
      with_createdAt_def tokens.truncate_def isTokenExpired_def)

lemma save_then_load_scenario:
  "loadTokens ''u1''
     (snd (saveTokens ''2024-01-01T00:00:00.000Z'' ''u1''
             \<lparr>access_token = Some ''a1'', refresh_token = None,
              expiry_date = Some (1704067200000 + 3600000), email = None\<rparr>
             \<lparr>tokens_json = Missing, write_error = None\<rparr>))
   = Inr (Found \<lparr>access_token = Some ''a1'', refresh_token = None,
                 expiry_date = Some (1704067200000 + 3600000), email = None,
                 createdAt = ''2024-01-01T00:00:00.000Z''\<rparr>)
   \<and> \<not> isTokenExpired 1704067200000
         \<lparr>access_token = Some ''a1'', refresh_token = None,
          expiry_date = Some (1704067200000 + 3600000), email = None,
          createdAt = ''2024-01-01T00:00:00.000Z''\<rparr>"
  by (simp add: saveTokens_def loadTokens_def set_property_def get_property_def
      with_createdAt_def isTokenExpired_def)


lemma loadTokens_inherited_name:
  assumes "tokens_json fs = Document d" and "d k = None" and "inherited k"
  shows "loadTokens k fs = Inr (Inherited k)"
  using assms by (simp add: loadTokens_def get_property_def)




text \<open>
  C9. For distinct ids \<open>u\<close> and \<open>k\<close> and well-formed backing content (the file holds a
  document), a \<open>saveTokens u t\<close> that returns leaves the answer of \<open>loadTokens k\<close> as
  it was before the save: the same record or the same not-found. For an id \<open>k\<close> that
  is not the name of a member of \<open>Object.prototype\<close> this holds over every content of
  the file.
\<close>

theorem saveTokens_frame:
  assumes "u \<noteq> k" and "saveTokens stamp u t fs = (Inr True, fs')"
    and "(\<exists>d. tokens_json fs = Document d) \<or> \<not> inherited k"
  shows "loadTokens k fs' = loadTokens k fs"
  using assms
  by (cases "tokens_json fs")
     (auto simp: saveTokens_def loadTokens_def set_property_def get_property_def Let_def
        split: option.splits if_splits)

theorem saveTokens_frame_witness:
  "loadTokens ''u1''
     \<lparr>tokens_json = Document [''u1'' \<mapsto> with_createdAt tokens_a1 ''2024-01-01T00:00:00.000Z'',
                               ''u2'' \<mapsto> with_createdAt tokens_no_expiry ''2024-02-02T00:00:00.000Z''],
      write_error = None\<rparr>
   = loadTokens ''u1''
       \<lparr>tokens_json = Document [''u1'' \<mapsto> with_createdAt tokens_a1 ''2024-01-01T00:00:00.000Z''],
        write_error = None\<rparr>"
proof -
  have distinct_ids: "''u2'' \<noteq> ''u1''" by simp
  have saved: "saveTokens ''2024-02-02T00:00:00.000Z'' ''u2'' tokens_no_expiry
      \<lparr>tokens_json = Document [''u1'' \<mapsto> with_createdAt tokens_a1 ''2024-01-01T00:00:00.000Z''],
        write_error = None\<rparr>
    = (Inr True,
       \<lparr>tokens_json = Document [''u1'' \<mapsto> with_createdAt tokens_a1 ''2024-01-01T00:00:00.000Z'',
                               ''u2'' \<mapsto> with_createdAt tokens_no_expiry ''2024-02-02T00:00:00.000Z''],
        write_error = None\<rparr>)"
    by (simp add: saveTokens_def set_property_def)
  have well_formed: "(\<exists>d. tokens_json
        \<lparr>tokens_json = Document [''u1'' \<mapsto> with_createdAt tokens_a1 ''2024-01-01T00:00:00.000Z''],
         write_error = None\<rparr> = Document d) \<or> \<not> inherited ''u1''"
    by simp
  show ?thesis by (rule saveTokens_frame [OF distinct_ids saved well_formed])
qed

section \<open>Properties of the liveness endpoint\<close>

lemma health_of_started_process:
  assumes "validateEnvironment env = Inr ()"
  shows "without_field ''timestamp'' (health s env) =
    Json 200 (JObj [(''status'', JStr ''OK''), (''environment'', JObj
           [(''client_id_set'', JBool True),
            (''client_secret_set'', JBool True),
            (''session_secret_set'', JBool True)])])"
  using assms
  by (auto simp: health_def required_def validateEnvironment_def missing_environment_def
      split: if_splits)

text \<open>
  C10. Two environments that agree, for each required variable, on whether it is set
  (in the sense of the code: \<open>!!process.env.X\<close>, the test \<open>validateEnvironment\<close> uses
  for a missing variable) give responses of the liveness endpoint that are equal apart
  from the \<open>timestamp\<close> field, whatever the values are. In a process that has passed
  \<open>validateEnvironment\<close> all three are set (\<open>health_of_started_process\<close>).
\<close>

theorem health_presence_only:
  assumes "\<forall>key \<in> set required. falsy (e1 key) = falsy (e2 key)"
  shows "without_field ''timestamp'' (health s1 e1) = without_field ''timestamp'' (health s2 e2)"
  using assms by (simp add: health_def required_def)

theorem health_presence_only_witness:
  "without_field ''timestamp''
     (health ''2024-01-01T00:00:00.000Z''
        [''CLIENT_ID'' \<mapsto> ''id-one'', ''CLIENT_SECRET'' \<mapsto> ''secret-one''])
   = without_field ''timestamp''
       (health ''2024-03-03T00:00:00.000Z''
          [''CLIENT_ID'' \<mapsto> ''another-id'', ''CLIENT_SECRET'' \<mapsto> ''hunter2''])"
proof -
  have agree: "\<forall>key \<in> set required.
      falsy ([''CLIENT_ID'' \<mapsto> ''id-one'', ''CLIENT_SECRET'' \<mapsto> ''secret-one''] key)
    = falsy ([''CLIENT_ID'' \<mapsto> ''another-id'', ''CLIENT_SECRET'' \<mapsto> ''hunter2''] key)"
    by (simp add: required_def falsy_def)
  show ?thesis by (rule health_presence_only [OF agree])
qed

section \<open>Properties of the listing\<close>

lemma fetch_details_append:
  "fetch_details f api ms acc =
     acc @ map (\<lambda>m. case messages_get api (m_id m)
                        [''From'', ''To'', ''Subject'', ''Date'', ''Message-ID''] of
                  Inl e \<Rightarrow> error_entry m e
                | Inr d \<Rightarrow> email_summary f m d) ms"
  by (induction ms arbitrary: acc) simp_all

lemma listEmails_partial_failure:
  assumes "messages_list api n (Some ls) = Inr found"
  shows "\<exists>es. listEmails f api n ls = Inr es
      \<and> length es = length (case found of None \<Rightarrow> [] | Some ms \<Rightarrow> ms)
      \<and> (\<forall>i < length es.
           (let m = (case found of None \<Rightarrow> [] | Some ms \<Rightarrow> ms) ! i in
            case messages_get api (m_id m) [''From'', ''To'', ''Subject'', ''Date'', ''Message-ID''] of
              Inl e \<Rightarrow> es ! i = error_entry m e
            | Inr d \<Rightarrow> es ! i = email_summary f m d))"
  using assms
  by (auto simp: listEmails_def fetch_details_append Let_def split: sum.splits option.splits)

lemma listEmails_on_example:
  "listEmails (\<lambda>d. d) example_api 10 [''INBOX'']
   = Inr [email_summary (\<lambda>d. d) \<lparr>m_id = ''m1'', m_threadId = ''t1''\<rparr>
            \<lparr>headers = [(''Subject'', ''hi'')], snippet = Some ''s'',
             internalDate = None, labelIds = None\<rparr>,
          JObj [(''id'', JStr ''m2''), (''error'', JStr ''boom'')],
          email_summary (\<lambda>d. d) \<lparr>m_id = ''m3'', m_threadId = ''t3''\<rparr>
            \<lparr>headers = [(''Subject'', ''hi'')], snippet = Some ''s'',
             internalDate = None, labelIds = None\<rparr>]"
  by (simp add: listEmails_def error_entry_def)

text \<open>
  C6. Listing three messages where the detail fetch of the second one is rejected: the
  specification asks for a result of length three with an error entry at position two.
  The server with the label filter gives that (\<open>listEmails_partial_failure\<close>,
  \<open>listEmails_on_example\<close>); the same method in the older copy of the server fails
  as a whole.
\<close>

theorem listEmails_basic_aborts:
  "listEmails_basic example_api 10 = Inl ''Failed to list emails: boom''"
  by (simp add: listEmails_basic_def)

section \<open>Properties of the send endpoints\<close>

lemma delegated_missing_field_rejected:
  assumes "loadUserTokens req st = Next t" and "validateEmailAccess req = Next target"
    and "falsy (db_to req) \<or> falsy (db_subject req) \<or> falsy (db_body req)"
  shows "delegated_send_route api req st =
     (Json 400 (JObj [(''error'', JStr ''Missing required fields: to, subject, body, from'')]), st)"
  using assms by (auto simp add: delegated_send_route_def)




section \<open>Properties of the delegated routes\<close>

text \<open>
  C3 (as the code has it). \<open>loadUserTokens\<close> hands the loaded token set to the request
  only, and no route calls \<open>initializeForUser\<close>. So while the service has no client
  (as in a fresh process), a request with a \<open>userId\<close> the store knows and a well-formed
  \<open>targetEmail\<close> gets status 500 with the message 'Gmail client not initialized...'
  from the inbox route (under \<open>details\<close>) and from the threads route (under \<open>error\<close>)
  when its \<open>labelIds\<close> parameter is absent or one string, and from the single-email
  route (under \<open>error\<close>) when its \<open>messageId\<close> has five characters or more; a shorter
  \<open>messageId\<close> gets status 400. The state of the server is left as it was.
\<close>

theorem delegated_reads_uninitialized:
  assumes no_client: "\<not> gmail_ready st"
    and user: "dq_userId req = Some uid" "uid \<noteq> []"
    and stored_user: "loadTokens uid (files st) = Inr userTokens" "userTokens \<noteq> NotFound"
    and target: "dq_targetEmail req = Some target" "emailRegex_test target"
  shows "(dq_labelIds req \<noteq> Structured \<longrightarrow>
           inbox_route api req st =
             (Json 500 (JObj [(''error'', JStr ''Failed to fetch emails''),
                              (''details'', JStr ''Gmail client not initialized. Call initializeForUser() first.'')]),
              st)
           \<and> threads_route api req st =
               (Json 500 (JObj [(''error'', JStr ''Gmail client not initialized.'')]), st))
      \<and> (5 \<le> js_length (param_messageId req) \<longrightarrow>
           email_route api req st =
             (Json 500 (JObj [(''error'', JStr ''Gmail client not initialized.'')]), st))
      \<and> (js_length (param_messageId req) < 5 \<longrightarrow>
           email_route api req st =
             (Json 400 (JObj [(''error'', JStr ''Valid messageId is required'')]), st))"
proof -
  have target_given: "\<not> falsy (dq_targetEmail req)"
    using target
    by (auto simp: falsy_def emailRegex_test_def regex_test_def emailRegex_def one_or_more_def
        Let_def)
  have loaded: "loadUserTokens req st = Next userTokens"
    using user stored_user by (cases userTokens) (simp_all add: loadUserTokens_def falsy_def)
  have valid: "validateEmailAccess req = Next target"
    using target_given target by (simp add: validateEmailAccess_def)
  have labels: "dq_labelIds req \<noteq> Structured \<Longrightarrow> split_labelIds (dq_labelIds req) = Inr ()"
    by (cases "dq_labelIds req") (simp_all add: split_labelIds_def)
  have some_id: "5 \<le> js_length (param_messageId req) \<Longrightarrow> param_messageId req \<noteq> []"
    by (auto simp: js_length_def)
  show ?thesis
    using no_client loaded valid labels some_id
    by (auto simp: inbox_route_def email_route_def threads_route_def getDelegatedEmails_def
        getDelegatedEmail_def getDelegatedThreads_def)
qed

theorem delegated_reads_uninitialized_witness:
  "inbox_route example_delegated_api (delegated_read ''18c2f0a1b2c3d4e5'') fresh_server =
     (Json 500 (JObj [(''error'', JStr ''Failed to fetch emails''),
                      (''details'', JStr ''Gmail client not initialized. Call initializeForUser() first.'')]),
      fresh_server)
   \<and> threads_route example_delegated_api (delegated_read ''18c2f0a1b2c3d4e5'') fresh_server =
       (Json 500 (JObj [(''error'', JStr ''Gmail client not initialized.'')]), fresh_server)
   \<and> email_route example_delegated_api (delegated_read ''18c2f0a1b2c3d4e5'') fresh_server =
       (Json 500 (JObj [(''error'', JStr ''Gmail client not initialized.'')]), fresh_server)"
proof -
  have no_client: "\<not> gmail_ready fresh_server" by simp
  have user: "dq_userId (delegated_read ''18c2f0a1b2c3d4e5'') = Some ''u1''" by simp
  have nonempty: "''u1'' \<noteq> []" by simp
  have found: "loadTokens ''u1'' (files fresh_server) =
      Inr (Found \<lparr>access_token = Some ''a1'', refresh_token = None,
                  expiry_date = Some 1000, email = Some ''owner@x.org'',
                  createdAt = ''2024-01-01T00:00:00.000Z''\<rparr>)"
    by (simp add: loadTokens_def get_property_def)
  have target: "dq_targetEmail (delegated_read ''18c2f0a1b2c3d4e5'') = Some ''a@b.co''" by simp
  have well_formed: "emailRegex_test ''a@b.co''"
    by (simp add: emailRegex_test_def regex_test_def emailRegex_def one_or_more_def
        ascii_space_def wide_spaces_def Let_def)
  have is_found: "Found \<lparr>access_token = Some ''a1'', refresh_token = None,
                  expiry_date = Some 1000, email = Some ''owner@x.org'',
                  createdAt = ''2024-01-01T00:00:00.000Z''\<rparr> \<noteq> NotFound"
    by simp
  note inst = delegated_reads_uninitialized
      [OF no_client user nonempty found is_found target well_formed, of example_delegated_api]
  have one_string: "dq_labelIds (delegated_read ''18c2f0a1b2c3d4e5'') \<noteq> Structured" by simp
  have long_id: "5 \<le> js_length (param_messageId (delegated_read ''18c2f0a1b2c3d4e5''))"
    by (simp add: js_length_def)
  show ?thesis
    using inst [THEN conjunct1, THEN mp, OF one_string]
      inst [THEN conjunct2, THEN conjunct1, THEN mp, OF long_id]
    by (simp only:)
qed

text \<open>
  A request to the single-email route with the three-character id \<open>abc\<close> is answered
  with status 400, not 500.
\<close>

theorem short_messageId_counterexample:
  "email_route example_delegated_api (delegated_read ''abc'') fresh_server =
     (Json 400 (JObj [(''error'', JStr ''Valid messageId is required'')]), fresh_server)"
  by (simp add: email_route_def loadUserTokens_def loadTokens_def get_property_def
      validateEmailAccess_def falsy_def emailRegex_test_def regex_test_def emailRegex_def one_or_more_def
      ascii_space_def wide_spaces_def js_length_def Let_def)

lemma structured_labelIds_on_example:
  "inbox_route example_delegated_api
     ((delegated_read ''18c2f0a1b2c3d4e5'')\<lparr>dq_labelIds := Structured\<rparr>) fresh_server =
     (Json 500 (JObj [(''error'', JStr ''Failed to fetch emails''),
                      (''details'', JStr ''labelIds.split is not a function'')]),
      fresh_server)"
  by (simp add: inbox_route_def loadUserTokens_def loadTokens_def get_property_def
      validateEmailAccess_def split_labelIds_def falsy_def emailRegex_test_def regex_test_def emailRegex_def
      one_or_more_def ascii_space_def wide_spaces_def Let_def)

section \<open>Properties of the raw payload\<close>


































end
